theory Spec2Isabelle
  imports Main "HOL-Library.Word"
begin

section \<open>Platform values\<close>

text \<open>
  The SDK is TypeScript. Values are modelled at their declared types: an interface is a
  record, an optional member is an \<open>option\<close>, a \<open>bigint\<close> is an \<open>int\<close>. A string is a list of
  code units below 256. Whatever a function can throw is a value of \<open>exn\<close> on the left of a
  sum. Console output is not part of the model.
\<close>

type_synonym byte = "8 word"

datatype exn = SyntaxError string | TypeError string | Error string

subsection \<open>\<open>BigInt(string)\<close>\<close>

text \<open>
  \<open>BigInt\<close> applied to a string trims white space and line terminators, reads the empty
  string as zero, a \<open>0x\<close>, \<open>0o\<close> or \<open>0b\<close> literal without sign, or decimal digits with an
  optional sign, and throws a \<open>SyntaxError\<close> on anything else.
\<close>

definition isStrWhiteSpaceChar :: "char \<Rightarrow> bool" where
  "isStrWhiteSpaceChar c =
     (c \<in> set [CHR 0x09, CHR 0x0A, CHR 0x0B, CHR 0x0C, CHR 0x0D, CHR 0x20, CHR 0xA0])"

definition trimString :: "string \<Rightarrow> string" where
  "trimString s =
     rev (dropWhile isStrWhiteSpaceChar (rev (dropWhile isStrWhiteSpaceChar s)))"

definition digitValue :: "int \<Rightarrow> char \<Rightarrow> int option" where
  "digitValue radix c =
     (let n = (of_char c :: int);
          v = (if 48 \<le> n \<and> n \<le> 57 then Some (n - 48)
               else if 97 \<le> n \<and> n \<le> 102 then Some (n - 87)
               else if 65 \<le> n \<and> n \<le> 70 then Some (n - 55)
               else None)
      in case v of
           None \<Rightarrow> None
         | Some d \<Rightarrow> if d < radix then Some d else None)"

fun digitsValue :: "int \<Rightarrow> string \<Rightarrow> int \<Rightarrow> int option" where
  "digitsValue radix [] acc = Some acc"
| "digitsValue radix (c # cs) acc =
     (case digitValue radix c of
        None \<Rightarrow> None
      | Some d \<Rightarrow> digitsValue radix cs (acc * radix + d))"

definition parseDigits :: "int \<Rightarrow> string \<Rightarrow> int option" where
  "parseDigits radix s = (if s = [] then None else digitsValue radix s 0)"

definition StringToBigInt :: "string \<Rightarrow> int option" where
  "StringToBigInt str =
     (let s = trimString str in
      if s = [] then Some 0
      else if take 2 s = ''0x'' \<or> take 2 s = ''0X'' then parseDigits 16 (drop 2 s)
      else if take 2 s = ''0o'' \<or> take 2 s = ''0O'' then parseDigits 8 (drop 2 s)
      else if take 2 s = ''0b'' \<or> take 2 s = ''0B'' then parseDigits 2 (drop 2 s)
      else if take 1 s = ''+'' then parseDigits 10 (drop 1 s)
      else if take 1 s = ''-'' then map_option uminus (parseDigits 10 (drop 1 s))
      else parseDigits 10 s)"

definition BigInt :: "string \<Rightarrow> exn + int" where
  "BigInt s =
     (case StringToBigInt s of
        None \<Rightarrow> Inl (SyntaxError (''Cannot convert '' @ s @ '' to a BigInt''))
      | Some n \<Rightarrow> Inr n)"

subsection \<open>Decimal rendering of a \<open>bigint\<close> in a template literal\<close>

function showNat :: "int \<Rightarrow> string" where
  "showNat n =
     (if n < 10 then [char_of (48 + n)]
      else showNat (n div 10) @ [char_of (48 + n mod 10)])"
  by pat_completeness auto
termination
  by (relation "measure nat") auto

declare showNat.simps [simp del]

definition showInt :: "int \<Rightarrow> string" where
  "showInt i = (if i < 0 then CHR ''-'' # showNat (- i) else showNat i)"

subsection \<open>\<open>String.prototype.replace\<close> with a string pattern\<close>

fun replaceFirst :: "string \<Rightarrow> string \<Rightarrow> string \<Rightarrow> string" where
  "replaceFirst pat rep [] = (if pat = [] then rep else [])"
| "replaceFirst pat rep (c # cs) =
     (if take (length pat) (c # cs) = pat then rep @ drop (length pat) (c # cs)
      else c # replaceFirst pat rep cs)"

subsection \<open>Base64\<close>

text \<open>
  The standard alphabet with padding. \<open>base64Decode\<close> is \<open>None\<close> on text that is not padded
  base64, which the encoders never produce.
\<close>

definition b64char :: "int \<Rightarrow> char" where
  "b64char n =
     (if n < 26 then char_of (65 + n)
      else if n < 52 then char_of (71 + n)
      else if n < 62 then char_of (n - 4)
      else if n = 62 then CHR ''+''
      else CHR ''/'')"

definition b64value :: "char \<Rightarrow> int option" where
  "b64value c =
     (let n = (of_char c :: int) in
      if 65 \<le> n \<and> n \<le> 90 then Some (n - 65)
      else if 97 \<le> n \<and> n \<le> 122 then Some (n - 71)
      else if 48 \<le> n \<and> n \<le> 57 then Some (n + 4)
      else if n = 43 then Some 62
      else if n = 47 then Some 63
      else None)"

fun base64Encode :: "byte list \<Rightarrow> string" where
  "base64Encode [] = []"
| "base64Encode [a] =
     [b64char (uint a div 4), b64char ((uint a mod 4) * 16), CHR ''='', CHR ''='']"
| "base64Encode [a, b] =
     [b64char (uint a div 4), b64char ((uint a mod 4) * 16 + uint b div 16),
      b64char ((uint b mod 16) * 4), CHR ''='']"
| "base64Encode (a # b # c # rest) =
     [b64char (uint a div 4), b64char ((uint a mod 4) * 16 + uint b div 16),
      b64char ((uint b mod 16) * 4 + uint c div 64), b64char (uint c mod 64)]
     @ base64Encode rest"

fun base64Decode :: "string \<Rightarrow> byte list option" where
  "base64Decode [] = Some []"
| "base64Decode (c1 # c2 # c3 # c4 # rest) =
     (if rest = [] \<and> c3 = CHR ''='' \<and> c4 = CHR ''=''
      then (case (b64value c1, b64value c2) of
              (Some v1, Some v2) \<Rightarrow> Some [word_of_int (v1 * 4 + v2 div 16)]
            | _ \<Rightarrow> None)
      else if rest = [] \<and> c4 = CHR ''=''
      then (case (b64value c1, b64value c2, b64value c3) of
              (Some v1, Some v2, Some v3) \<Rightarrow>
                Some [word_of_int (v1 * 4 + v2 div 16),
                      word_of_int ((v2 mod 16) * 16 + v3 div 4)]
            | _ \<Rightarrow> None)
      else (case (b64value c1, b64value c2, b64value c3, b64value c4) of
              (Some v1, Some v2, Some v3, Some v4) \<Rightarrow>
                map_option
                  (\<lambda>bytes. word_of_int (v1 * 4 + v2 div 16)
                          # word_of_int ((v2 mod 16) * 16 + v3 div 4)
                          # word_of_int ((v3 mod 4) * 64 + v4) # bytes)
                  (base64Decode rest)
            | _ \<Rightarrow> None))"
| "base64Decode _ = None"

subsection \<open>UTF-8\<close>

text \<open>
  The code units of a string are below 256, so each takes one or two bytes. \<open>utf8Decode\<close>
  is \<open>None\<close> on bytes that do not decode to such a string.
\<close>

definition utf8EncodeChar :: "char \<Rightarrow> byte list" where
  "utf8EncodeChar c =
     (let n = (of_char c :: int) in
      if n < 128 then [word_of_int n]
      else [word_of_int (192 + n div 64), word_of_int (128 + n mod 64)])"

definition utf8Encode :: "string \<Rightarrow> byte list" where
  "utf8Encode s = concat (map utf8EncodeChar s)"

fun utf8Decode :: "byte list \<Rightarrow> string option" where
  "utf8Decode [] = Some []"
| "utf8Decode (b # bs) =
     (if uint b < 128 then map_option ((#) (char_of (uint b))) (utf8Decode bs)
      else if uint b = 194 \<or> uint b = 195
      then (case bs of
              [] \<Rightarrow> None
            | b2 # rest \<Rightarrow>
                if 128 \<le> uint b2 \<and> uint b2 < 192
                then map_option ((#) (char_of ((uint b - 192) * 64 + (uint b2 - 128))))
                       (utf8Decode rest)
                else None)
      else None)"

subsection \<open>JSON\<close>

text \<open>
  A JavaScript value that \<open>JSON.stringify\<close> can be given and \<open>JSON.parse\<close> can return. An
  object is the list of its properties in insertion order. \<open>Finite n\<close> is the number with
  the integer value \<open>n\<close>; numbers with a fraction are left out, and a text with a fraction
  or an exponent is not read. \<open>JSON.stringify\<close> writes a number that is not finite as
  \<open>null\<close>.
\<close>

datatype number = Finite int | NaN | PosInfinity | NegInfinity

datatype json =
    JNull
  | JBool bool
  | JNumber number
  | JString string
  | JArray "json list"
  | JObject "(string \<times> json) list"

definition hexDigit :: "int \<Rightarrow> char" where
  "hexDigit n = (if n < 10 then char_of (48 + n) else char_of (87 + n))"

definition quoteChar :: "char \<Rightarrow> string" where
  "quoteChar c =
     (let n = (of_char c :: int) in
      if n = 8 then [CHR 0x5C, CHR ''b'']
      else if n = 9 then [CHR 0x5C, CHR ''t'']
      else if n = 10 then [CHR 0x5C, CHR ''n'']
      else if n = 12 then [CHR 0x5C, CHR ''f'']
      else if n = 13 then [CHR 0x5C, CHR ''r'']
      else if n = 34 then [CHR 0x5C, CHR 0x22]
      else if n = 92 then [CHR 0x5C, CHR 0x5C]
      else if n < 32 then [CHR 0x5C, CHR ''u'', CHR ''0'', CHR ''0'',
                           hexDigit (n div 16), hexDigit (n mod 16)]
      else [c])"

definition quoteJSONString :: "string \<Rightarrow> string" where
  "quoteJSONString s = CHR 0x22 # concat (map quoteChar s) @ [CHR 0x22]"

definition numberToString :: "number \<Rightarrow> string" where
  "numberToString n = (case n of Finite i \<Rightarrow> showInt i | _ \<Rightarrow> ''null'')"

fun stringify :: "json \<Rightarrow> string"
  and stringifyElements :: "json list \<Rightarrow> string"
  and stringifyMembers :: "(string \<times> json) list \<Rightarrow> string" where
  "stringify JNull = ''null''"
| "stringify (JBool b) = (if b then ''true'' else ''false'')"
| "stringify (JNumber n) = numberToString n"
| "stringify (JString s) = quoteJSONString s"
| "stringify (JArray xs) = ''['' @ stringifyElements xs @ '']''"
| "stringify (JObject kvs) = ''{'' @ stringifyMembers kvs @ ''}''"
| "stringifyElements [] = []"
| "stringifyElements [x] = stringify x"
| "stringifyElements (x # y # ys) = stringify x @ '','' @ stringifyElements (y # ys)"
| "stringifyMembers [] = []"
| "stringifyMembers [(k, v)] = quoteJSONString k @ '':'' @ stringify v"
| "stringifyMembers ((k, v) # m # ms) =
     quoteJSONString k @ '':'' @ stringify v @ '','' @ stringifyMembers (m # ms)"

text \<open>
  \<open>JSON.parse\<close> as a recursive descent. Each nested value and each further element or
  member takes one unit of fuel; \<open>JSON_parse\<close> supplies one unit more than the text has
  characters, and a run that exhausts its fuel is reported like a text that does not parse.
\<close>

definition isJsonWhiteSpace :: "char \<Rightarrow> bool" where
  "isJsonWhiteSpace c = (c \<in> set [CHR 0x20, CHR 0x09, CHR 0x0A, CHR 0x0D])"

definition skipWhiteSpace :: "string \<Rightarrow> string" where
  "skipWhiteSpace s = dropWhile isJsonWhiteSpace s"

definition unescape :: "char \<Rightarrow> char option" where
  "unescape e =
     (if e = CHR 0x22 then Some (CHR 0x22)
      else if e = CHR 0x5C then Some (CHR 0x5C)
      else if e = CHR ''/'' then Some (CHR ''/'')
      else if e = CHR ''b'' then Some (CHR 0x08)
      else if e = CHR ''f'' then Some (CHR 0x0C)
      else if e = CHR ''n'' then Some (CHR 0x0A)
      else if e = CHR ''r'' then Some (CHR 0x0D)
      else if e = CHR ''t'' then Some (CHR 0x09)
      else None)"

fun parseStringBody :: "string \<Rightarrow> (string \<times> string) option" where
  "parseStringBody [] = None"
| "parseStringBody (c # cs) =
     (if c = CHR 0x22 then Some ([], cs)
      else if c = CHR 0x5C then
        (case cs of
           [] \<Rightarrow> None
         | e # rest \<Rightarrow>
             if e = CHR ''u'' then
               (case rest of
                  h1 # h2 # h3 # h4 # rest' \<Rightarrow>
                    (case digitsValue 16 [h1, h2, h3, h4] 0 of
                       None \<Rightarrow> None
                     | Some n \<Rightarrow>
                         if n < 256
                         then map_option (\<lambda>(str, r). (char_of n # str, r)) (parseStringBody rest')
                         else None)
                | _ \<Rightarrow> None)
             else
               (case unescape e of
                  None \<Rightarrow> None
                | Some ch \<Rightarrow> map_option (\<lambda>(str, r). (ch # str, r)) (parseStringBody rest)))
      else if (of_char c :: int) < 32 then None
      else map_option (\<lambda>(str, r). (c # str, r)) (parseStringBody cs))"

definition isDigit :: "char \<Rightarrow> bool" where
  "isDigit c = (48 \<le> (of_char c :: int) \<and> (of_char c :: int) \<le> 57)"

definition parseNumber :: "string \<Rightarrow> (int \<times> string) option" where
  "parseNumber s =
     (let negative = (take 1 s = ''-'');
          s1 = (if negative then drop 1 s else s);
          ds = takeWhile isDigit s1;
          rest = dropWhile isDigit s1
      in if ds = [] then None
         else if length ds > 1 \<and> take 1 ds = ''0'' then None
         else if take 1 rest = ''.'' \<or> take 1 rest = ''e'' \<or> take 1 rest = ''E'' then None
         else map_option (\<lambda>n. (if negative then - n else n, rest)) (digitsValue 10 ds 0))"

text \<open>
  A parsed member is added to the object: a repeated key keeps its place and takes the
  later value.
\<close>

fun setMember :: "string \<Rightarrow> json \<Rightarrow> (string \<times> json) list \<Rightarrow> (string \<times> json) list" where
  "setMember k v [] = [(k, v)]"
| "setMember k v ((k', v') # kvs) =
     (if k = k' then (k, v) # kvs else (k', v') # setMember k v kvs)"

fun parseValue :: "nat \<Rightarrow> string \<Rightarrow> (json \<times> string) option"
  and parseElements :: "nat \<Rightarrow> string \<Rightarrow> (json list \<times> string) option"
  and parseMembers :: "nat \<Rightarrow> string \<Rightarrow> ((string \<times> json) list \<times> string) option" where
  "parseValue 0 s = None"
| "parseValue (Suc fuel) s =
     (case skipWhiteSpace s of
        [] \<Rightarrow> None
      | c # cs \<Rightarrow>
          if c = CHR ''n'' then (if take 3 cs = ''ull'' then Some (JNull, drop 3 cs) else None)
          else if c = CHR ''t'' then
            (if take 3 cs = ''rue'' then Some (JBool True, drop 3 cs) else None)
          else if c = CHR ''f'' then
            (if take 4 cs = ''alse'' then Some (JBool False, drop 4 cs) else None)
          else if c = CHR 0x22 then
            map_option (\<lambda>(str, r). (JString str, r)) (parseStringBody cs)
          else if c = CHR ''['' then
            (if take 1 (skipWhiteSpace cs) = '']''
             then Some (JArray [], drop 1 (skipWhiteSpace cs))
             else map_option (\<lambda>(xs, r). (JArray xs, r)) (parseElements fuel cs))
          else if c = CHR ''{'' then
            (if take 1 (skipWhiteSpace cs) = ''}''
             then Some (JObject [], drop 1 (skipWhiteSpace cs))
             else map_option (\<lambda>(kvs, r). (JObject kvs, r)) (parseMembers fuel cs))
          else map_option (\<lambda>(n, r). (JNumber (Finite n), r)) (parseNumber (c # cs)))"
| "parseElements 0 s = None"
| "parseElements (Suc fuel) s =
     (case parseValue fuel s of
        None \<Rightarrow> None
      | Some (v, r) \<Rightarrow>
          if take 1 (skipWhiteSpace r) = '',''
          then map_option (\<lambda>(vs, r'). (v # vs, r'))
                 (parseElements fuel (drop 1 (skipWhiteSpace r)))
          else if take 1 (skipWhiteSpace r) = '']''
          then Some ([v], drop 1 (skipWhiteSpace r))
          else None)"
| "parseMembers 0 s = None"
| "parseMembers (Suc fuel) s =
     (if take 1 (skipWhiteSpace s) \<noteq> [CHR 0x22] then None
      else
        (case parseStringBody (drop 1 (skipWhiteSpace s)) of
           None \<Rightarrow> None
         | Some (k, r) \<Rightarrow>
             if take 1 (skipWhiteSpace r) \<noteq> '':'' then None
             else
               (case parseValue fuel (drop 1 (skipWhiteSpace r)) of
                  None \<Rightarrow> None
                | Some (v, r') \<Rightarrow>
                    if take 1 (skipWhiteSpace r') = '',''
                    then map_option (\<lambda>(kvs, r''). ((k, v) # kvs, r''))
                           (parseMembers fuel (drop 1 (skipWhiteSpace r')))
                    else if take 1 (skipWhiteSpace r') = ''}''
                    then Some ([(k, v)], drop 1 (skipWhiteSpace r'))
                    else None)))"

fun normalize :: "json \<Rightarrow> json" where
  "normalize (JArray xs) = JArray (map normalize xs)"
| "normalize (JObject kvs) = JObject (foldl (\<lambda>acc (k, v). setMember k (normalize v) acc) [] kvs)"
| "normalize v = v"

definition JSON_parse :: "string \<Rightarrow> json option" where
  "JSON_parse text =
     (case parseValue (Suc (length text)) text of
        None \<Rightarrow> None
      | Some (v, r) \<Rightarrow> if skipWhiteSpace r = [] then Some (normalize v) else None)"



section \<open>Data model (\<open>src/types/index.ts\<close>)\<close>

type_synonym SuiAddress = string

type_synonym SuiNetwork = string

record SuiConfig =
  network :: SuiNetwork
  rpcUrl :: "string option"
  fullnodeUrl :: "string option"

record TokenConfig =
  coinType :: string
  decimals :: int
  name :: string
  symbol :: "string option"

record X402Config =
  suiConfig :: SuiConfig
  tokenConfig :: "TokenConfig option"

record OutputSchemaInput =
  type :: string
  http_method :: string
  discoverable :: "bool option"

record OutputSchema =
  input :: "OutputSchemaInput option"

record Extra =
  feePayer :: "string option"

record PaymentRequirement =
  scheme :: string
  network :: SuiNetwork
  maxAmountRequired :: string
  resource :: string
  description :: "string option"
  mimeType :: "string option"
  payTo :: SuiAddress
  maxTimeoutSeconds :: int
  asset :: string
  outputSchema :: "OutputSchema option"
  extra :: "Extra option"

record PaymentPayload =
  scheme :: string
  network :: SuiNetwork
  transaction :: string
  signature :: string
  amount :: string
  payTo :: SuiAddress
  asset :: string

record PaymentResponse =
  transactionDigest :: string
  amount :: string
  timestamp :: number
  effects :: "json option"

record RouteConfig =
  methods :: "string list option"
  price :: string
  description :: "string option"

type_synonym RoutesConfig = "string \<Rightarrow> RouteConfig option"

record FacilitatorConfig =
  url :: string
  timeout :: "int option"

record PaywallTheme =
  primaryColor :: "string option"
  backgroundColor :: "string option"

record PaywallConfig =
  title :: "string option"
  description :: "string option"
  logoUrl :: "string option"
  theme :: "PaywallTheme option"

record X402Response =
  x402Version :: int
  error :: "string option"
  accepts :: "PaymentRequirement list option"

section \<open>The ledger client and the transaction builder\<close>

text \<open>
  \<open>@mysten/sui\<close> and \<open>@mysten/bcs\<close> are outside the repository. A transaction under
  construction is the list of its commands; building, signing, the RPC calls and the
  base64 helpers are members of an \<open>sdk\<close> record, each returning the exception it throws on
  the left. A \<open>SuiClient\<close> is the URL it was created for. Every RPC a function performs is
  recorded, in order, in the list it returns beside its result.
\<close>

datatype TransactionArgument = GasCoin | Object string | Result nat

datatype Command =
    SplitCoins TransactionArgument "int list"
  | MergeCoins TransactionArgument "TransactionArgument list"
  | TransferObjects "TransactionArgument list" SuiAddress

record Transaction =
  commands :: "Command list"
  sender :: "SuiAddress option"

record CoinStruct =
  coinObjectId :: string
  balance :: string

type_synonym Ed25519Keypair = "byte list"

record SuiSigner =
  address :: SuiAddress
  keypair :: Ed25519Keypair

text \<open>
  What \<open>executeTransactionBlock\<close> resolves to: the digest, \<open>effects?.status?.status\<close>,
  \<open>effects?.status?.error\<close> and the effects themselves.
\<close>

record ExecuteResult =
  digest :: string
  effectsStatus :: "string option"
  effectsError :: "string option"
  resultEffects :: "json option"

datatype rpc =
    GetCoins string SuiAddress string
  | Build string Transaction
  | DryRunTransactionBlock string "byte list"
  | ExecuteTransactionBlock string "byte list" string

record sdk =
  getFullnodeUrl :: "string \<Rightarrow> exn + string"
  getCoins :: "string \<Rightarrow> SuiAddress \<Rightarrow> string \<Rightarrow> exn + CoinStruct list"
  build :: "string \<Rightarrow> Transaction \<Rightarrow> exn + byte list"
  signTransaction :: "Ed25519Keypair \<Rightarrow> byte list \<Rightarrow> exn + byte list"
  dryRunTransactionBlock :: "string \<Rightarrow> byte list \<Rightarrow> exn + string"
  executeTransactionBlock :: "string \<Rightarrow> byte list \<Rightarrow> string \<Rightarrow> exn + ExecuteResult"
  toB64 :: "byte list \<Rightarrow> string"
  fromB64 :: "string \<Rightarrow> exn + byte list"

definition getSuiClient :: "sdk \<Rightarrow> SuiNetwork \<Rightarrow> string option \<Rightarrow> exn + string" where
  "getSuiClient k net endpoint =
     (case endpoint of
        Some u \<Rightarrow> if u \<noteq> [] then Inr u
                 else getFullnodeUrl k (replaceFirst ''sui-'' [] net)
      | None \<Rightarrow> getFullnodeUrl k (replaceFirst ''sui-'' [] net))"

section \<open>Verification (\<open>verifyPayment\<close>)\<close>

text \<open>Step 3 of \<open>verifyPayment\<close>: create the client, decode the bytes, dry-run them.\<close>

definition verifyPayment_dryRun ::
  "sdk \<Rightarrow> PaymentPayload \<Rightarrow> string option \<Rightarrow> (exn + bool) \<times> rpc list" where
  "verifyPayment_dryRun k p endpoint =
     (case getSuiClient k (PaymentPayload.network p) endpoint of
        Inl e \<Rightarrow> (Inl e, [])
      | Inr client \<Rightarrow>
          (case fromB64 k (transaction p) of
             Inl e \<Rightarrow> (Inl e, [])
           | Inr txBytes \<Rightarrow>
               (case dryRunTransactionBlock k client txBytes of
                  Inl e \<Rightarrow> (Inl e, [DryRunTransactionBlock client txBytes])
                | Inr status \<Rightarrow>
                    (if status \<noteq> ''success''
                     then (Inr False, [DryRunTransactionBlock client txBytes])
                     else (Inr True, [DryRunTransactionBlock client txBytes])))))"

text \<open>The body of the \<open>try\<close> block of \<open>verifyPayment\<close>.\<close>

definition verifyPayment_try ::
  "sdk \<Rightarrow> PaymentPayload \<Rightarrow> PaymentRequirement \<Rightarrow> string option \<Rightarrow> (exn + bool) \<times> rpc list" where
  "verifyPayment_try k p r endpoint =
     (if PaymentPayload.scheme p \<noteq> ''exact'' then (Inr False, [])
      else if PaymentPayload.network p \<noteq> PaymentRequirement.network r then (Inr False, [])
      else if PaymentPayload.payTo p \<noteq> PaymentRequirement.payTo r then (Inr False, [])
      else if PaymentPayload.asset p \<noteq> PaymentRequirement.asset r then (Inr False, [])
      else
        (case BigInt (PaymentPayload.amount p) of
           Inl e \<Rightarrow> (Inl e, [])
         | Inr paidAmount \<Rightarrow>
             (case BigInt (maxAmountRequired r) of
                Inl e \<Rightarrow> (Inl e, [])
              | Inr requiredAmount \<Rightarrow>
                  (if paidAmount < requiredAmount then (Inr False, [])
                   else verifyPayment_dryRun k p endpoint))))"

text \<open>\<open>verifyPayment\<close>: the \<open>catch\<close> clause turns every exception into \<open>false\<close>.\<close>

definition verifyPayment ::
  "sdk \<Rightarrow> PaymentPayload \<Rightarrow> PaymentRequirement \<Rightarrow> string option \<Rightarrow> (exn + bool) \<times> rpc list" where
  "verifyPayment k p r endpoint =
     (case verifyPayment_try k p r endpoint of
        (Inl e, made) \<Rightarrow> (Inr False, made)
      | (Inr b, made) \<Rightarrow> (Inr b, made))"

section \<open>Settlement (\<open>settlePayment\<close>)\<close>

text \<open>\<open>now\<close> is the value of \<open>Date.now()\<close>.\<close>

definition settlePayment ::
  "sdk \<Rightarrow> int \<Rightarrow> PaymentPayload \<Rightarrow> string option \<Rightarrow> (exn + PaymentResponse) \<times> rpc list" where
  "settlePayment k now p endpoint =
     (case getSuiClient k (PaymentPayload.network p) endpoint of
        Inl e \<Rightarrow> (Inl e, [])
      | Inr client \<Rightarrow>
          (case fromB64 k (transaction p) of
             Inl e \<Rightarrow> (Inl e, [])
           | Inr txBytes \<Rightarrow>
               (case executeTransactionBlock k client txBytes (signature p) of
                  Inl e \<Rightarrow> (Inl e, [ExecuteTransactionBlock client txBytes (signature p)])
                | Inr result \<Rightarrow>
                    (if effectsStatus result \<noteq> Some ''success''
                     then (Inl (Error (''Transaction failed: ''
                                  @ (case effectsError result of
                                       None \<Rightarrow> ''Unknown error''
                                     | Some m \<Rightarrow> if m = [] then ''Unknown error'' else m))),
                           [ExecuteTransactionBlock client txBytes (signature p)])
                     else (Inr \<lparr> transactionDigest = digest result,
                                 amount = PaymentPayload.amount p,
                                 timestamp = Finite now,
                                 effects = resultEffects result \<rparr>,
                           [ExecuteTransactionBlock client txBytes (signature p)])))))"

section \<open>Payment construction (\<open>createAndSignPayment\<close>)\<close>

text \<open>The \<open>for\<close> loop that selects coins until their balances cover the amount.\<close>

fun selectCoins ::
  "CoinStruct list \<Rightarrow> int \<Rightarrow> string list \<Rightarrow> int \<Rightarrow> exn + (string list \<times> int)" where
  "selectCoins [] amt selectedCoins totalAmount = Inr (selectedCoins, totalAmount)"
| "selectCoins (coin # coins) amt selectedCoins totalAmount =
     (case BigInt (balance coin) of
        Inl e \<Rightarrow> Inl e
      | Inr b \<Rightarrow>
          (if totalAmount + b \<ge> amt
           then Inr (selectedCoins @ [coinObjectId coin], totalAmount + b)
           else selectCoins coins amt (selectedCoins @ [coinObjectId coin]) (totalAmount + b)))"

text \<open>
  The commands added to the transaction: a split of the gas coin for the native asset,
  otherwise a merge of the selected coins, a split and a transfer. An exception thrown by
  a builder method is reported by \<open>build\<close>.
\<close>

definition transferCommands ::
  "sdk \<Rightarrow> string \<Rightarrow> PaymentRequirement \<Rightarrow> SuiSigner \<Rightarrow> int \<Rightarrow> (exn + Command list) \<times> rpc list" where
  "transferCommands k client r signer amt =
     (if PaymentRequirement.asset r = ''0x2::sui::SUI''
      then (Inr [SplitCoins GasCoin [amt],
                 TransferObjects [Result 0] (PaymentRequirement.payTo r)], [])
      else
        (case getCoins k client (address signer) (PaymentRequirement.asset r) of
           Inl e \<Rightarrow> (Inl e, [GetCoins client (address signer) (PaymentRequirement.asset r)])
         | Inr coins \<Rightarrow>
             (if length coins = 0
              then (Inl (Error (''No coins found for type '' @ PaymentRequirement.asset r)),
                    [GetCoins client (address signer) (PaymentRequirement.asset r)])
              else
                (case selectCoins coins amt [] 0 of
                   Inl e \<Rightarrow> (Inl e, [GetCoins client (address signer) (PaymentRequirement.asset r)])
                 | Inr (selectedCoins, totalAmount) \<Rightarrow>
                     (if totalAmount < amt
                      then (Inl (Error (''Insufficient balance. Required: '' @ showInt amt
                                   @ '', Available: '' @ showInt totalAmount)),
                            [GetCoins client (address signer) (PaymentRequirement.asset r)])
                      else
                        (case selectedCoins of
                           [] \<Rightarrow> (Inl (TypeError ''no coin selected''),
                                  [GetCoins client (address signer) (PaymentRequirement.asset r)])
                         | first # others \<Rightarrow>
                             (if length selectedCoins > 1
                              then (Inr [MergeCoins (Object first) (map Object others),
                                         SplitCoins (Object first) [amt],
                                         TransferObjects [Result 1] (PaymentRequirement.payTo r)],
                                    [GetCoins client (address signer) (PaymentRequirement.asset r)])
                              else (Inr [SplitCoins (Object first) [amt],
                                         TransferObjects [Result 0] (PaymentRequirement.payTo r)],
                                    [GetCoins client (address signer)
                                       (PaymentRequirement.asset r)]))))))))"

definition createAndSignPayment ::
  "sdk \<Rightarrow> PaymentRequirement \<Rightarrow> SuiSigner \<Rightarrow> string option \<Rightarrow> (exn + PaymentPayload) \<times> rpc list" where
  "createAndSignPayment k r signer endpoint =
     (case getSuiClient k (PaymentRequirement.network r) endpoint of
        Inl e \<Rightarrow> (Inl e, [])
      | Inr client \<Rightarrow>
          (case BigInt (maxAmountRequired r) of
             Inl e \<Rightarrow> (Inl e, [])
           | Inr amt \<Rightarrow>
               (case transferCommands k client r signer amt of
                  (Inl e, made) \<Rightarrow> (Inl e, made)
                | (Inr cmds, made) \<Rightarrow>
                    (let tx = \<lparr> commands = cmds, sender = Some (address signer) \<rparr> in
                     case build k client tx of
                       Inl e \<Rightarrow> (Inl e, made @ [Build client tx])
                     | Inr txBytes \<Rightarrow>
                         (case signTransaction k (keypair signer) txBytes of
                            Inl e \<Rightarrow> (Inl e, made @ [Build client tx])
                          | Inr sig \<Rightarrow>
                              (Inr \<lparr> PaymentPayload.scheme = ''exact'',
                                     network = PaymentRequirement.network r,
                                     transaction = toB64 k txBytes,
                                     signature = toB64 k sig,
                                     amount = maxAmountRequired r,
                                     payTo = PaymentRequirement.payTo r,
                                     asset = PaymentRequirement.asset r \<rparr>,
                               made @ [Build client tx]))))))"

section \<open>HTTP messages and the header codec\<close>

text \<open>
  A response is its status, its headers and its body, which is either an X402 envelope
  serialised by \<open>res.json\<close> or other text. Headers are a list of names in lower case with
  their values; \<open>getHeader\<close> reads one and \<open>setHeader\<close> replaces one. The headers Express
  adds by itself (\<open>x-powered-by\<close>, \<open>content-length\<close>, \<open>etag\<close>) are left out.
\<close>

type_synonym Headers = "(string \<times> string) list"

definition getHeader :: "Headers \<Rightarrow> string \<Rightarrow> string option" where
  "getHeader hs k = map_of hs k"

definition setHeader :: "Headers \<Rightarrow> string \<Rightarrow> string \<Rightarrow> Headers" where
  "setHeader hs k v = (k, v) # filter (\<lambda>kv. fst kv \<noteq> k) hs"

datatype Body = JsonBody X402Response | TextBody string

record Response =
  status :: int
  headers :: Headers
  body :: Body

record Request =
  path :: string
  http_method :: string
  protocol :: string
  originalUrl :: string
  headers :: Headers

text \<open>
  \<open>JSON.parse(Buffer.from(header, "base64").toString("utf-8"))\<close> and its inverse are platform
  functions. They are members of a \<open>codec\<close> record, each decoder at the type its call site
  declares and returning the exception it throws on the left. The object parsed from an
  \<open>x-payment-required\<close> header either has an \<open>accepts\<close> array or is itself a requirement.
\<close>

datatype ParsedRequired = WithAccepts "PaymentRequirement list" | Bare PaymentRequirement

record codec =
  encodePayload :: "PaymentPayload \<Rightarrow> string"
  decodePayload :: "string \<Rightarrow> exn + PaymentPayload"
  decodeRequired :: "string \<Rightarrow> exn + ParsedRequired"

subsection \<open>The codec of Node\<close>

text \<open>
  \<open>Buffer.from(text).toString("base64")\<close> and \<open>Buffer.from(text, "base64").toString("utf-8")\<close>.
  Node decodes leniently: it skips characters outside the alphabet and replaces bytes
  that are not UTF-8. That repair is not modelled; such an input is \<open>None\<close> here and the
  callers below treat it like a text that does not parse.
\<close>

definition toBase64 :: "string \<Rightarrow> string" where
  "toBase64 text = base64Encode (utf8Encode text)"

definition fromBase64 :: "string \<Rightarrow> string option" where
  "fromBase64 text =
     (case base64Decode text of
        None \<Rightarrow> None
      | Some bytes \<Rightarrow> utf8Decode bytes)"

text \<open>A payload as the object \<open>createAndSignPayment\<close> returns, and an object read as a payload.\<close>

definition payloadToJson :: "PaymentPayload \<Rightarrow> json" where
  "payloadToJson p =
     JObject [(''scheme'', JString (PaymentPayload.scheme p)),
              (''network'', JString (PaymentPayload.network p)),
              (''transaction'', JString (transaction p)),
              (''signature'', JString (signature p)),
              (''amount'', JString (PaymentPayload.amount p)),
              (''payTo'', JString (PaymentPayload.payTo p)),
              (''asset'', JString (PaymentPayload.asset p))]"

definition stringMember :: "(string \<times> json) list \<Rightarrow> string \<Rightarrow> string option" where
  "stringMember kvs k =
     (case map_of kvs k of
        Some (JString str) \<Rightarrow> Some str
      | _ \<Rightarrow> None)"

definition payloadOfJson :: "json \<Rightarrow> PaymentPayload option" where
  "payloadOfJson j =
     (case j of
        JObject kvs \<Rightarrow>
          Option.bind (stringMember kvs ''scheme'') (\<lambda>f1.
          Option.bind (stringMember kvs ''network'') (\<lambda>f2.
          Option.bind (stringMember kvs ''transaction'') (\<lambda>f3.
          Option.bind (stringMember kvs ''signature'') (\<lambda>f4.
          Option.bind (stringMember kvs ''amount'') (\<lambda>f5.
          Option.bind (stringMember kvs ''payTo'') (\<lambda>f6.
          Option.bind (stringMember kvs ''asset'') (\<lambda>f7.
            Some \<lparr> PaymentPayload.scheme = f1, network = f2, transaction = f3,
                   signature = f4, amount = f5, payTo = f6, asset = f7 \<rparr>)))))))
      | _ \<Rightarrow> None)"

text \<open>The header value \<open>createPaymentHeader\<close> returns for a payment.\<close>

definition encodePaymentHeader :: "PaymentPayload \<Rightarrow> string" where
  "encodePaymentHeader payment = toBase64 (stringify (payloadToJson payment))"

text \<open>The value the middleware parses from the \<open>x-payment\<close> header.\<close>

definition parsePaymentHeader :: "string \<Rightarrow> json option" where
  "parsePaymentHeader paymentHeader =
     (case fromBase64 paymentHeader of
        None \<Rightarrow> None
      | Some text \<Rightarrow> JSON_parse text)"









section \<open>The Express middleware (\<open>paymentMiddleware\<close>)\<close>

text \<open>
  The downstream route handler is outside the middleware. What matters of it is how it
  answers: through \<open>res.send\<close> or \<open>res.json\<close>, which the middleware wraps, with the status
  code set at that moment; by other means such as \<open>res.end\<close>; or not at all.
\<close>

datatype HandlerResult = Sends int string | Ends int string | NoResponse

text \<open>
  The global \<open>fetch\<close> of the server process reaches the facilitator. A call is its URL, its
  JSON body and the timeout of its abort signal; the reply is the \<open>ok\<close> flag of the
  response, or the exception \<open>fetch\<close> throws when the facilitator is unreachable or the
  timeout fires.
\<close>

datatype FacilitatorBody =
    VerifyBody PaymentPayload PaymentRequirement
  | SettleBody PaymentPayload

record FacilitatorCall =
  url :: string
  body :: FacilitatorBody
  timeout :: int

datatype io = Rpc rpc | Fetch FacilitatorCall

text \<open>
  What one request leads to: the response the client receives, if any, whether the
  downstream handler was invoked, and the outgoing calls in the order they are made.
\<close>

record Outcome =
  delivered :: "Response option"
  handlerRan :: bool
  calls :: "io list"

definition DEFAULT_TOKEN :: TokenConfig where
  "DEFAULT_TOKEN = \<lparr> coinType = ''0x2::sui::SUI'', decimals = 9, name = ''SUI'',
                     symbol = Some ''SUI'' \<rparr>"

definition configuredToken :: "X402Config option \<Rightarrow> TokenConfig" where
  "configuredToken x402Config =
     (case x402Config of
        None \<Rightarrow> DEFAULT_TOKEN
      | Some c \<Rightarrow> (case tokenConfig c of None \<Rightarrow> DEFAULT_TOKEN | Some t \<Rightarrow> t))"

definition configuredNetwork :: "X402Config option \<Rightarrow> SuiNetwork" where
  "configuredNetwork x402Config =
     (case x402Config of
        None \<Rightarrow> ''sui-localnet''
      | Some c \<Rightarrow> if SuiConfig.network (suiConfig c) = [] then ''sui-localnet''
                 else SuiConfig.network (suiConfig c))"

definition configuredRpcUrl :: "X402Config option \<Rightarrow> string option" where
  "configuredRpcUrl x402Config =
     (case x402Config of None \<Rightarrow> None | Some c \<Rightarrow> rpcUrl (suiConfig c))"

text \<open>The template literal \<open>${req.protocol}://${req.get("host")}${req.originalUrl}\<close>.\<close>

definition resourceUrl :: "Request \<Rightarrow> string" where
  "resourceUrl req =
     protocol req @ ''://''
       @ (case getHeader (Request.headers req) ''host'' of None \<Rightarrow> ''undefined'' | Some h \<Rightarrow> h)
       @ originalUrl req"

text \<open>The requirement placed in the challenge.\<close>

definition challengeRequirement ::
  "SuiAddress \<Rightarrow> RouteConfig \<Rightarrow> FacilitatorConfig option \<Rightarrow> X402Config option \<Rightarrow> Request
     \<Rightarrow> PaymentRequirement" where
  "challengeRequirement payee routeConfig facilitator x402Config req =
     \<lparr> PaymentRequirement.scheme = ''exact'',
       network = configuredNetwork x402Config,
       maxAmountRequired = price routeConfig,
       resource = resourceUrl req,
       description = Some (case RouteConfig.description routeConfig of
                             None \<Rightarrow> [] | Some d \<Rightarrow> d),
       mimeType = Some [],
       payTo = payee,
       maxTimeoutSeconds = 60,
       asset = coinType (configuredToken x402Config),
       outputSchema = Some \<lparr> input = Some \<lparr> type = ''http'',
                                              http_method = Request.http_method req,
                                              discoverable = Some True \<rparr> \<rparr>,
       extra = (case facilitator of
                  None \<Rightarrow> None
                | Some f \<Rightarrow> Some \<lparr> feePayer = Some ''facilitator'' \<rparr>) \<rparr>"

text \<open>The requirement rebuilt for verification when a payment header is present.\<close>

definition expectedRequirement ::
  "SuiAddress \<Rightarrow> RouteConfig \<Rightarrow> X402Config option \<Rightarrow> Request \<Rightarrow> PaymentRequirement" where
  "expectedRequirement payee routeConfig x402Config req =
     \<lparr> PaymentRequirement.scheme = ''exact'',
       network = configuredNetwork x402Config,
       maxAmountRequired = price routeConfig,
       resource = resourceUrl req,
       description = None,
       mimeType = None,
       payTo = payee,
       maxTimeoutSeconds = 60,
       asset = coinType (configuredToken x402Config),
       outputSchema = None,
       extra = None \<rparr>"

definition jsonResponse :: "int \<Rightarrow> X402Response \<Rightarrow> Response" where
  "jsonResponse code envelope =
     \<lparr> status = code,
       headers = [(''content-type'', ''application/json; charset=utf-8'')],
       body = JsonBody envelope \<rparr>"

definition challenge :: "PaymentRequirement \<Rightarrow> Response" where
  "challenge paymentRequirement =
     jsonResponse 402 \<lparr> x402Version = 1, error = Some ''X-PAYMENT header is required'',
                        accepts = Some [paymentRequirement] \<rparr>"

definition verificationFailed :: Response where
  "verificationFailed =
     jsonResponse 402 \<lparr> x402Version = 1, error = Some ''Payment verification failed'',
                        accepts = None \<rparr>"

definition invalidFormat :: Response where
  "invalidFormat =
     jsonResponse 402 \<lparr> x402Version = 1, error = Some ''Invalid payment format'',
                        accepts = None \<rparr>"

text \<open>The response a handler result puts on the wire.\<close>

definition handlerResponse :: "HandlerResult \<Rightarrow> Response option" where
  "handlerResponse h =
     (case h of
        Sends code text \<Rightarrow> Some \<lparr> status = code, headers = [], body = TextBody text \<rparr>
      | Ends code text \<Rightarrow> Some \<lparr> status = code, headers = [], body = TextBody text \<rparr>
      | NoResponse \<Rightarrow> None)"

definition facilitatorTimeout :: "FacilitatorConfig \<Rightarrow> int" where
  "facilitatorTimeout f =
     (case FacilitatorConfig.timeout f of
        None \<Rightarrow> 30000
      | Some t \<Rightarrow> if t = 0 then 30000 else t)"

text \<open>
  The \<open>finish\<close> listener. It runs once the response has been written; \<open>routeExecuted\<close> and
  \<open>routeStatusCode\<close> are what the wrappers of \<open>res.send\<close> and \<open>res.json\<close> recorded. With a
  facilitator it posts the payload to \<open>/settle\<close>; whatever comes back is only logged, and
  the header it then tries to set on the finished response is refused by Node and the
  refusal is caught. Without a facilitator it does nothing.
\<close>

definition onFinish ::
  "(FacilitatorCall \<Rightarrow> exn + bool) \<Rightarrow> FacilitatorConfig option \<Rightarrow> PaymentPayload
     \<Rightarrow> HandlerResult \<Rightarrow> io list" where
  "onFinish fetch facilitator paymentPayload h =
     (case h of
        NoResponse \<Rightarrow> []
      | _ \<Rightarrow>
          (let routeExecuted = (case h of Sends code text \<Rightarrow> True | _ \<Rightarrow> False);
               routeStatusCode = (case h of Sends code text \<Rightarrow> code | _ \<Rightarrow> 200)
           in if routeExecuted \<and> routeStatusCode < 400
              then (case facilitator of
                      None \<Rightarrow> []
                    | Some f \<Rightarrow>
                        (case fetch \<lparr> url = FacilitatorConfig.url f @ ''/settle'',
                                      body = SettleBody paymentPayload,
                                      timeout = facilitatorTimeout f \<rparr> of
                           Inl e \<Rightarrow> [Fetch \<lparr> url = FacilitatorConfig.url f @ ''/settle'',
                                             body = SettleBody paymentPayload,
                                             timeout = facilitatorTimeout f \<rparr>]
                         | Inr ok \<Rightarrow> [Fetch \<lparr> url = FacilitatorConfig.url f @ ''/settle'',
                                              body = SettleBody paymentPayload,
                                              timeout = facilitatorTimeout f \<rparr>]))
              else []))"

text \<open>
  The verification step: through the facilitator's \<open>/verify\<close> when one is configured,
  locally otherwise. An exception here is one the enclosing \<open>try\<close> will catch.
\<close>

definition verifyStep ::
  "sdk \<Rightarrow> (FacilitatorCall \<Rightarrow> exn + bool) \<Rightarrow> FacilitatorConfig option \<Rightarrow> string option
     \<Rightarrow> PaymentPayload \<Rightarrow> PaymentRequirement \<Rightarrow> (exn + bool) \<times> io list" where
  "verifyStep k fetch facilitator endpoint paymentPayload paymentRequirement =
     (case facilitator of
        Some f \<Rightarrow>
          (case fetch \<lparr> url = FacilitatorConfig.url f @ ''/verify'',
                        body = VerifyBody paymentPayload paymentRequirement,
                        timeout = facilitatorTimeout f \<rparr> of
             Inl e \<Rightarrow> (Inl e, [Fetch \<lparr> url = FacilitatorConfig.url f @ ''/verify'',
                                       body = VerifyBody paymentPayload paymentRequirement,
                                       timeout = facilitatorTimeout f \<rparr>])
           | Inr ok \<Rightarrow> (Inr ok, [Fetch \<lparr> url = FacilitatorConfig.url f @ ''/verify'',
                                         body = VerifyBody paymentPayload paymentRequirement,
                                         timeout = facilitatorTimeout f \<rparr>]))
      | None \<Rightarrow>
          (case verifyPayment k paymentPayload paymentRequirement endpoint of
             (isValid, rpcs) \<Rightarrow> (isValid, map Rpc rpcs)))"

text \<open>
  The middleware. \<open>next\<close> is the downstream handler; on the verified path it receives the
  payload the middleware stored in \<open>req.x402Payment\<close>.
\<close>

definition paymentMiddleware ::
  "sdk \<Rightarrow> codec \<Rightarrow> (FacilitatorCall \<Rightarrow> exn + bool)
     \<Rightarrow> SuiAddress \<Rightarrow> RoutesConfig \<Rightarrow> FacilitatorConfig option \<Rightarrow> PaywallConfig option
     \<Rightarrow> X402Config option
     \<Rightarrow> Request \<Rightarrow> (Request \<Rightarrow> PaymentPayload option \<Rightarrow> HandlerResult) \<Rightarrow> Outcome" where
  "paymentMiddleware k cdc fetch payee routes facilitator paywall x402Config req next =
     (case routes (path req) of
        None \<Rightarrow> \<lparr> delivered = handlerResponse (next req None), handlerRan = True, calls = [] \<rparr>
      | Some routeConfig \<Rightarrow>
          (if Request.http_method req
                \<notin> set (case methods routeConfig of None \<Rightarrow> [''GET''] | Some ms \<Rightarrow> ms)
           then \<lparr> delivered = handlerResponse (next req None), handlerRan = True, calls = [] \<rparr>
           else
             (case getHeader (Request.headers req) ''x-payment'' of
                None \<Rightarrow>
                  \<lparr> delivered =
                      Some (challenge (challengeRequirement payee routeConfig facilitator
                                         x402Config req)),
                    handlerRan = False, calls = [] \<rparr>
              | Some paymentHeader \<Rightarrow>
                  (if paymentHeader = []
                   then \<lparr> delivered =
                            Some (challenge (challengeRequirement payee routeConfig facilitator
                                               x402Config req)),
                          handlerRan = False, calls = [] \<rparr>
                   else
                     (case decodePayload cdc paymentHeader of
                        Inl e \<Rightarrow> \<lparr> delivered = Some invalidFormat, handlerRan = False,
                                   calls = [] \<rparr>
                      | Inr paymentPayload \<Rightarrow>
                          (case verifyStep k fetch facilitator (configuredRpcUrl x402Config)
                                  paymentPayload
                                  (expectedRequirement payee routeConfig x402Config req) of
                             (Inl e, made) \<Rightarrow>
                               \<lparr> delivered = Some invalidFormat, handlerRan = False,
                                 calls = made \<rparr>
                           | (Inr isValid, made) \<Rightarrow>
                               (if \<not> isValid
                                then \<lparr> delivered = Some verificationFailed,
                                       handlerRan = False, calls = made \<rparr>
                                else
                                  \<lparr> delivered = handlerResponse (next req (Some paymentPayload)),
                                    handlerRan = True,
                                    calls = made @ onFinish fetch facilitator paymentPayload
                                                     (next req (Some paymentPayload)) \<rparr>)))))))"

section \<open>The payment-aware transport (\<open>wrapFetchWithPayment\<close>)\<close>

record RequestInit =
  http_method :: "string option"
  headers :: "Headers option"
  body :: "string option"

text \<open>
  \<open>fetchFn\<close> is the caller's transport. It may answer the same request differently the
  second time, so it threads a state of the world; the request target is passed on as
  it is and never inspected. The trace lists, in order, the requests handed to \<open>fetchFn\<close>
  and the RPCs of payment construction.
\<close>

datatype 'i step = Fetched 'i "RequestInit option" | Called rpc

definition decodeXPaymentRequired :: "codec \<Rightarrow> string \<Rightarrow> exn + PaymentRequirement list" where
  "decodeXPaymentRequired cdc header =
     (case decodeRequired cdc header of
        Inl e \<Rightarrow> Inl (Error ''Invalid payment required header format'')
      | Inr parsed \<Rightarrow>
          (case parsed of
             WithAccepts reqs \<Rightarrow> Inr reqs
           | Bare req \<Rightarrow> Inr [req]))"

definition createPaymentHeader ::
  "sdk \<Rightarrow> codec \<Rightarrow> PaymentRequirement \<Rightarrow> SuiSigner \<Rightarrow> string option
     \<Rightarrow> (exn + string) \<times> rpc list" where
  "createPaymentHeader k cdc paymentRequirement signer endpoint =
     (case createAndSignPayment k paymentRequirement signer endpoint of
        (Inl e, made) \<Rightarrow> (Inl e, made)
      | (Inr payment, made) \<Rightarrow> (Inr (encodePayload cdc payment), made))"

text \<open>
  From a 402 response to the payment header: read the \<open>x-payment-required\<close> header,
  decode it, select a requirement, check it against \<open>maxValue\<close>, build the header.
\<close>

definition preparePayment ::
  "sdk \<Rightarrow> codec \<Rightarrow> SuiSigner \<Rightarrow> int option
     \<Rightarrow> (PaymentRequirement list \<Rightarrow> exn + PaymentRequirement option) option
     \<Rightarrow> X402Config option \<Rightarrow> Response \<Rightarrow> (exn + string) \<times> rpc list" where
  "preparePayment k cdc signer maxValue paymentRequirementsSelector config response =
     (case (case getHeader (Response.headers response) ''x-payment-required'' of
              None \<Rightarrow> None
            | Some h \<Rightarrow> if h = [] then None else Some h) of
        None \<Rightarrow> (Inl (Error ''402 status but no x-payment-required header found''), [])
      | Some paymentRequiredHeader \<Rightarrow>
          (case decodeXPaymentRequired cdc paymentRequiredHeader of
             Inl e \<Rightarrow> (Inl e, [])
           | Inr requirements \<Rightarrow>
               (case requirements of
                  [] \<Rightarrow> (Inl (Error ''No payment requirements provided''), [])
                | firstRequirement # others \<Rightarrow>
                    (case (case paymentRequirementsSelector of
                             None \<Rightarrow> Inr (Some firstRequirement)
                           | Some selector \<Rightarrow> selector requirements) of
                       Inl e \<Rightarrow> (Inl e, [])
                     | Inr None \<Rightarrow> (Inl (Error ''No suitable payment requirement found''), [])
                     | Inr (Some selectedRequirement) \<Rightarrow>
                         (case (case maxValue of
                                  None \<Rightarrow> Inr ()
                                | Some limit \<Rightarrow>
                                    (case BigInt (maxAmountRequired selectedRequirement) of
                                       Inl e \<Rightarrow> Inl e
                                     | Inr requiredAmount \<Rightarrow>
                                         if requiredAmount > limit
                                         then Inl (Error (''Payment amount (''
                                                @ showInt requiredAmount
                                                @ '') exceeds maximum allowed value (''
                                                @ showInt limit @ '')''))
                                         else Inr ())) of
                            Inl e \<Rightarrow> (Inl e, [])
                          | Inr ok \<Rightarrow>
                              createPaymentHeader k cdc selectedRequirement signer
                                (configuredRpcUrl config))))))"

text \<open>\<open>{ ...init, headers: newHeaders }\<close> with \<open>x-payment\<close> set in a copy of the headers.\<close>

definition withPayment :: "RequestInit option \<Rightarrow> string \<Rightarrow> RequestInit" where
  "withPayment init paymentHeader =
     (case init of
        None \<Rightarrow> \<lparr> http_method = None,
                  headers = Some (setHeader [] ''x-payment'' paymentHeader),
                  body = None \<rparr>
      | Some i \<Rightarrow>
          i \<lparr> RequestInit.headers :=
                Some (setHeader (case RequestInit.headers i of None \<Rightarrow> [] | Some hs \<Rightarrow> hs)
                        ''x-payment'' paymentHeader) \<rparr>)"

text \<open>
  The wrapped fetch. After the retried request the receipt header, if present, is decoded
  and logged inside its own \<open>try\<close>; that has no effect on the result.
\<close>

definition wrapFetchWithPayment ::
  "sdk \<Rightarrow> codec \<Rightarrow> ('i \<Rightarrow> RequestInit option \<Rightarrow> 'w \<Rightarrow> (exn + Response) \<times> 'w)
     \<Rightarrow> SuiSigner \<Rightarrow> int option
     \<Rightarrow> (PaymentRequirement list \<Rightarrow> exn + PaymentRequirement option) option
     \<Rightarrow> X402Config option
     \<Rightarrow> 'i \<Rightarrow> RequestInit option \<Rightarrow> 'w \<Rightarrow> (exn + Response) \<times> 'i step list \<times> 'w" where
  "wrapFetchWithPayment k cdc fetchFn signer maxValue paymentRequirementsSelector config
       target init w =
     (case fetchFn target init w of
        (Inl e, w1) \<Rightarrow> (Inl e, [Fetched target init], w1)
      | (Inr response, w1) \<Rightarrow>
          (if status response = 402
           then
             (case preparePayment k cdc signer maxValue paymentRequirementsSelector config
                     response of
                (Inl e, made) \<Rightarrow> (Inl e, Fetched target init # map Called made, w1)
              | (Inr paymentHeader, made) \<Rightarrow>
                  (case fetchFn target (Some (withPayment init paymentHeader)) w1 of
                     (retried, w2) \<Rightarrow>
                       (retried,
                        Fetched target init # map Called made
                          @ [Fetched target (Some (withPayment init paymentHeader))],
                        w2)))
           else (Inr response, [Fetched target init], w1)))"

section \<open>The transport against the middleware\<close>

text \<open>
  One HTTP exchange between the transport and an Express application that mounts the
  middleware in front of a handler. The request target is the parsed URL; the request
  the application sees has its path, its method (\<open>GET\<close> unless \<open>init\<close> names one) and the
  headers of \<open>init\<close> with \<open>host\<close> added. The state of the world is the list of outgoing calls
  the server has made so far. A request that is never answered makes \<open>fetch\<close> throw.
\<close>

record Url =
  protocol :: string
  host :: string
  pathname :: string
  search :: string

definition toRequest :: "Url \<Rightarrow> RequestInit option \<Rightarrow> Request" where
  "toRequest target init =
     \<lparr> path = pathname target,
       http_method = (case init of
                        None \<Rightarrow> ''GET''
                      | Some i \<Rightarrow> (case RequestInit.http_method i of
                                    None \<Rightarrow> ''GET'' | Some m \<Rightarrow> m)),
       protocol = Url.protocol target,
       originalUrl = pathname target @ search target,
       headers = (case init of
                    None \<Rightarrow> setHeader [] ''host'' (host target)
                  | Some i \<Rightarrow> (case RequestInit.headers i of
                                None \<Rightarrow> setHeader [] ''host'' (host target)
                              | Some hs \<Rightarrow> setHeader hs ''host'' (host target))) \<rparr>"

definition serve ::
  "(Request \<Rightarrow> (Request \<Rightarrow> PaymentPayload option \<Rightarrow> HandlerResult) \<Rightarrow> Outcome)
     \<Rightarrow> (Request \<Rightarrow> PaymentPayload option \<Rightarrow> HandlerResult)
     \<Rightarrow> Url \<Rightarrow> RequestInit option \<Rightarrow> io list \<Rightarrow> (exn + Response) \<times> io list" where
  "serve middleware handler target init w =
     (case delivered (middleware (toRequest target init) handler) of
        None \<Rightarrow> (Inl (TypeError ''fetch failed''),
                 w @ calls (middleware (toRequest target init) handler))
      | Some response \<Rightarrow> (Inr response,
                          w @ calls (middleware (toRequest target init) handler)))"

section \<open>Sample values\<close>

text \<open>
  The \<open>/weather\<close> route of the example server, priced at one SUI, a ledger client whose
  dry run is a parameter, and payloads for that route.
\<close>

definition fullnodeUrl_of :: "string \<Rightarrow> exn + string" where
  "fullnodeUrl_of net =
     (if net = ''mainnet'' then Inr ''https://fullnode.mainnet.sui.io:443''
      else if net = ''testnet'' then Inr ''https://fullnode.testnet.sui.io:443''
      else if net = ''devnet'' then Inr ''https://fullnode.devnet.sui.io:443''
      else if net = ''localnet'' then Inr ''http://127.0.0.1:9000''
      else Inl (Error (''Unknown network: '' @ net)))"

definition localSdk :: "(string \<Rightarrow> byte list \<Rightarrow> exn + string) \<Rightarrow> sdk" where
  "localSdk dryRun =
     \<lparr> getFullnodeUrl = fullnodeUrl_of,
       getCoins = (\<lambda>client owner coinType. Inr []),
       build = (\<lambda>client tx. Inr [1, 2, 3]),
       signTransaction = (\<lambda>key bytes. Inr [4, 5, 6]),
       dryRunTransactionBlock = dryRun,
       executeTransactionBlock =
         (\<lambda>client bytes sig. Inr \<lparr> digest = ''9xQ'', effectsStatus = Some ''success'',
                                      effectsError = None, resultEffects = None \<rparr>),
       toB64 = base64Encode,
       fromB64 = (\<lambda>s. case base64Decode s of
                          None \<Rightarrow> Inl (Error ''Invalid base64'')
                        | Some bytes \<Rightarrow> Inr bytes) \<rparr>"

definition weatherRequirement :: PaymentRequirement where
  "weatherRequirement =
     \<lparr> PaymentRequirement.scheme = ''exact'', network = ''sui-localnet'',
       maxAmountRequired = ''1000000000'', resource = ''http://localhost:4021/weather'',
       description = None, mimeType = None, payTo = ''0xa11ce'', maxTimeoutSeconds = 60,
       asset = ''0x2::sui::SUI'', outputSchema = None, extra = None \<rparr>"

definition underpaidPayload :: PaymentPayload where
  "underpaidPayload =
     \<lparr> PaymentPayload.scheme = ''exact'', network = ''sui-localnet'',
       transaction = ''AQID'', signature = ''BAUG'', amount = ''500000000'',
       payTo = ''0xa11ce'', asset = ''0x2::sui::SUI'' \<rparr>"

definition paidPayload :: PaymentPayload where
  "paidPayload = underpaidPayload \<lparr> PaymentPayload.amount := ''1000000000'' \<rparr>"

text \<open>
  The codec of Node for payloads; a parsed value that is not a payload object cannot be
  held by the record and is reported as an exception. For the \<open>x-payment-required\<close>
  header the sample decoder knows one value, which stands for the challenge of the
  \<open>/weather\<close> route.
\<close>

definition nodeCodec :: codec where
  "nodeCodec =
     \<lparr> encodePayload = encodePaymentHeader,
       decodePayload =
         (\<lambda>h. case parsePaymentHeader h of
                 None \<Rightarrow> Inl (SyntaxError ''Unexpected token'')
               | Some j \<Rightarrow>
                   (case payloadOfJson j of
                      None \<Rightarrow> Inl (TypeError ''not a payment payload'')
                    | Some p \<Rightarrow> Inr p)),
       decodeRequired =
         (\<lambda>h. if h = ''weather''
               then Inr (WithAccepts [weatherRequirement])
               else Inl (SyntaxError ''Unexpected token'')) \<rparr>"

definition weatherRoutes :: RoutesConfig where
  "weatherRoutes =
     [''/weather'' \<mapsto> \<lparr> methods = Some [''GET''], price = ''1000000000'',
                        description = Some ''Get weather information'' \<rparr>]"

definition localFacilitator :: FacilitatorConfig where
  "localFacilitator =
     \<lparr> FacilitatorConfig.url = ''http://localhost:3002'', timeout = Some 30000 \<rparr>"

definition weatherUrl :: Url where
  "weatherUrl = \<lparr> protocol = ''http'', host = ''localhost:4021'', pathname = ''/weather'',
                  search = [] \<rparr>"

definition weatherHandler :: "Request \<Rightarrow> PaymentPayload option \<Rightarrow> HandlerResult" where
  "weatherHandler req payment = Sends 200 ''sunny''"



definition clientSigner :: SuiSigner where
  "clientSigner = \<lparr> address = ''0xb0b'', keypair = [7, 7, 7] \<rparr>"

definition weatherRoute :: RouteConfig where
  "weatherRoute = \<lparr> methods = Some [''GET''], price = ''1000000000'',
                   description = Some ''Get weather information'' \<rparr>"

text \<open>The request the transport sends once it has attached the full payment.\<close>

definition paidRequest :: Request where
  "paidRequest =
     toRequest weatherUrl (Some (withPayment None (encodePaymentHeader paidPayload)))"

text \<open>
  A server that carries its challenge in the \<open>x-payment-required\<close> header: it answers the
  first request with 402 and every later one with 200.
\<close>

definition challengeResponse :: Response where
  "challengeResponse =
     \<lparr> status = 402, headers = [(''x-payment-required'', ''weather'')], body = TextBody [] \<rparr>"

definition paywalledFetch ::
  "Url \<Rightarrow> RequestInit option \<Rightarrow> int \<Rightarrow> (exn + Response) \<times> int" where
  "paywalledFetch target init n =
     (if n = 0 then (Inr challengeResponse, n + 1)
      else (Inr \<lparr> status = 200, headers = [], body = TextBody ''sunny'' \<rparr>, n + 1))"

text \<open>The requests among the steps of a trace.\<close>

definition requests :: "'i step list \<Rightarrow> ('i \<times> RequestInit option) list" where
  "requests trace =
     concat (map (\<lambda>s. case s of Fetched t i \<Rightarrow> [(t, i)] | Called c \<Rightarrow> []) trace)"

section \<open>Properties of verification and payment construction\<close>

lemma verifyPayment_fst:
  "fst (verifyPayment k p r endpoint) =
     (case fst (verifyPayment_try k p r endpoint) of Inl e \<Rightarrow> Inr False | Inr b \<Rightarrow> Inr b)"
  unfolding verifyPayment_def
  by (cases "verifyPayment_try k p r endpoint"; cases "fst (verifyPayment_try k p r endpoint)") auto

lemma verifyPayment_dryRun_throws:
  assumes "(\<exists>e. getSuiClient k (PaymentPayload.network p) endpoint = Inl e)
      \<or> (\<exists>e. fromB64 k (transaction p) = Inl e)
      \<or> (\<exists>client txBytes e. getSuiClient k (PaymentPayload.network p) endpoint = Inr client
            \<and> fromB64 k (transaction p) = Inr txBytes
            \<and> dryRunTransactionBlock k client txBytes = Inl e)"
  shows "\<exists>e. fst (verifyPayment_dryRun k p endpoint) = Inl e"
  using assms unfolding verifyPayment_dryRun_def
  by (cases "getSuiClient k (PaymentPayload.network p) endpoint";
      cases "fromB64 k (transaction p)") auto

lemma verifyPayment_try_not_True:
  assumes "(\<exists>e. BigInt (PaymentPayload.amount p) = Inl e)
      \<or> (\<exists>e. BigInt (maxAmountRequired r) = Inl e)
      \<or> (\<exists>e. fst (verifyPayment_dryRun k p endpoint) = Inl e)"
  shows "fst (verifyPayment_try k p r endpoint) \<noteq> Inr True"
  using assms unfolding verifyPayment_try_def
  by (cases "BigInt (PaymentPayload.amount p)"; cases "BigInt (maxAmountRequired r)") auto

text \<open>
  Claim C2. \<open>verifyPayment\<close> returns \<open>false\<close> whenever the payload's scheme is not
  \<open>exact\<close>, or its network, payee or asset differs from the requirement's, or its amount,
  read as an integer, is below the required amount; and in each of these cases it returns
  before any ledger call: the list of RPCs performed is empty.
\<close>

theorem verifyPayment_rejects_before_dry_run:
  assumes "PaymentPayload.scheme p \<noteq> ''exact''
         \<or> PaymentPayload.network p \<noteq> PaymentRequirement.network r
         \<or> PaymentPayload.payTo p \<noteq> PaymentRequirement.payTo r
         \<or> PaymentPayload.asset p \<noteq> PaymentRequirement.asset r
         \<or> (\<exists>paid required. BigInt (PaymentPayload.amount p) = Inr paid
               \<and> BigInt (maxAmountRequired r) = Inr required \<and> paid < required)"
  shows "verifyPayment k p r endpoint = (Inr False, [])"
  using assms unfolding verifyPayment_def verifyPayment_try_def
  by (auto split: sum.splits)

text \<open>
  On a ledger where every dry run succeeds, the payload that pays the full price is
  accepted after one dry run, and the payload that pays half of it is refused without one.
\<close>

theorem verifyPayment_rejects_before_dry_run_witness:
  "(\<exists>paid required. BigInt (PaymentPayload.amount underpaidPayload) = Inr paid
        \<and> BigInt (maxAmountRequired weatherRequirement) = Inr required \<and> paid < required)
   \<and> verifyPayment (localSdk (\<lambda>c b. Inr ''success'')) paidPayload weatherRequirement None
       = (Inr True, [DryRunTransactionBlock ''http://127.0.0.1:9000'' [1, 2, 3]])
   \<and> verifyPayment (localSdk (\<lambda>c b. Inr ''success'')) underpaidPayload weatherRequirement None
       = (Inr False, [])"
proof -
  have a: "BigInt (PaymentPayload.amount underpaidPayload) = Inr 500000000" by code_simp
  have b: "BigInt (maxAmountRequired weatherRequirement) = Inr 1000000000" by code_simp
  have h: "\<exists>paid required. BigInt (PaymentPayload.amount underpaidPayload) = Inr paid
        \<and> BigInt (maxAmountRequired weatherRequirement) = Inr required \<and> paid < required"
    using a b by simp
  have c: "verifyPayment (localSdk (\<lambda>c b. Inr ''success'')) paidPayload weatherRequirement None
       = (Inr True, [DryRunTransactionBlock ''http://127.0.0.1:9000'' [1, 2, 3]])"
    by code_simp
  show ?thesis
    using h c verifyPayment_rejects_before_dry_run
      [of underpaidPayload weatherRequirement "localSdk (\<lambda>c b. Inr ''success'')" None]
    by simp
qed

text \<open>
  Claim C3. \<open>verifyPayment\<close> never throws: for every payload and requirement it returns a
  boolean. When an amount is not an integer literal, when the client cannot be created,
  when the transaction is not decodable, or when the dry run itself throws (the ledger is
  unreachable), the boolean is \<open>false\<close>.
\<close>

theorem verifyPayment_fails_closed:
  "(\<exists>b. fst (verifyPayment k p r endpoint) = Inr b) \<and>
   ((\<exists>e. BigInt (PaymentPayload.amount p) = Inl e)
      \<or> (\<exists>e. BigInt (maxAmountRequired r) = Inl e)
      \<or> (\<exists>e. getSuiClient k (PaymentPayload.network p) endpoint = Inl e)
      \<or> (\<exists>e. fromB64 k (transaction p) = Inl e)
      \<or> (\<exists>client txBytes e. getSuiClient k (PaymentPayload.network p) endpoint = Inr client
            \<and> fromB64 k (transaction p) = Inr txBytes
            \<and> dryRunTransactionBlock k client txBytes = Inl e)
    \<longrightarrow> fst (verifyPayment k p r endpoint) = Inr False)"
proof (intro conjI impI)
  show "\<exists>b. fst (verifyPayment k p r endpoint) = Inr b"
    unfolding verifyPayment_fst by (cases "fst (verifyPayment_try k p r endpoint)") auto
next
  assume h: "(\<exists>e. BigInt (PaymentPayload.amount p) = Inl e)
      \<or> (\<exists>e. BigInt (maxAmountRequired r) = Inl e)
      \<or> (\<exists>e. getSuiClient k (PaymentPayload.network p) endpoint = Inl e)
      \<or> (\<exists>e. fromB64 k (transaction p) = Inl e)
      \<or> (\<exists>client txBytes e. getSuiClient k (PaymentPayload.network p) endpoint = Inr client
            \<and> fromB64 k (transaction p) = Inr txBytes
            \<and> dryRunTransactionBlock k client txBytes = Inl e)"
  have "(\<exists>e. BigInt (PaymentPayload.amount p) = Inl e)
      \<or> (\<exists>e. BigInt (maxAmountRequired r) = Inl e)
      \<or> (\<exists>e. fst (verifyPayment_dryRun k p endpoint) = Inl e)"
    using h verifyPayment_dryRun_throws [of k p endpoint] by blast
  then have "fst (verifyPayment_try k p r endpoint) \<noteq> Inr True"
    by (rule verifyPayment_try_not_True)
  then show "fst (verifyPayment k p r endpoint) = Inr False"
    unfolding verifyPayment_fst by (cases "fst (verifyPayment_try k p r endpoint)") auto
qed

text \<open>
  Two instances: a fully paid payload on a ledger whose dry run throws, and a payload
  whose amount is the text \<open>1e9\<close> on a ledger whose dry run would succeed.
\<close>

theorem verifyPayment_fails_closed_witness:
  "dryRunTransactionBlock (localSdk (\<lambda>c b. Inl (Error ''fetch failed'')))
       ''http://127.0.0.1:9000'' [1, 2, 3] = Inl (Error ''fetch failed'')
   \<and> fst (verifyPayment (localSdk (\<lambda>c b. Inl (Error ''fetch failed'')))
            paidPayload weatherRequirement None) = Inr False
   \<and> BigInt (PaymentPayload.amount (paidPayload \<lparr> PaymentPayload.amount := ''1e9'' \<rparr>))
       = Inl (SyntaxError ''Cannot convert 1e9 to a BigInt'')
   \<and> fst (verifyPayment (localSdk (\<lambda>c b. Inr ''success''))
            (paidPayload \<lparr> PaymentPayload.amount := ''1e9'' \<rparr>) weatherRequirement None) = Inr False"
proof -
  let ?down = "localSdk (\<lambda>c b. Inl (Error ''fetch failed''))"
  let ?up = "localSdk (\<lambda>c b. Inr ''success'')"
  let ?bad = "paidPayload \<lparr> PaymentPayload.amount := ''1e9'' \<rparr>"
  have c: "getSuiClient ?down (PaymentPayload.network paidPayload) None
             = Inr ''http://127.0.0.1:9000''"
    by code_simp
  have f: "fromB64 ?down (transaction paidPayload) = Inr [1, 2, 3]"
    by code_simp
  have d: "dryRunTransactionBlock ?down ''http://127.0.0.1:9000'' [1, 2, 3]
             = Inl (Error ''fetch failed'')"
    by (simp add: localSdk_def)
  have b: "BigInt (PaymentPayload.amount ?bad) = Inl (SyntaxError ''Cannot convert 1e9 to a BigInt'')"
    by code_simp
  have r1: "fst (verifyPayment ?down paidPayload weatherRequirement None) = Inr False"
    using verifyPayment_fails_closed [of ?down paidPayload weatherRequirement None] c f d
    by blast
  have r2: "fst (verifyPayment ?up ?bad weatherRequirement None) = Inr False"
    using verifyPayment_fails_closed [of ?up ?bad weatherRequirement None] b
    by blast
  show ?thesis using d b r1 r2 by simp
qed

lemma createAndSignPayment_Inr:
  assumes "fst (createAndSignPayment k r signer endpoint) = Inr p"
  shows "\<exists>amt txBytes sig. BigInt (maxAmountRequired r) = Inr amt
           \<and> p = \<lparr> PaymentPayload.scheme = ''exact'',
                    network = PaymentRequirement.network r,
                    transaction = toB64 k txBytes,
                    signature = toB64 k sig,
                    amount = maxAmountRequired r,
                    payTo = PaymentRequirement.payTo r,
                    asset = PaymentRequirement.asset r \<rparr>"
proof (cases "getSuiClient k (PaymentRequirement.network r) endpoint")
  case (Inl e)
  with assms show ?thesis by (simp add: createAndSignPayment_def)
next
  case client: (Inr client)
  show ?thesis
  proof (cases "BigInt (maxAmountRequired r)")
    case (Inl e)
    with assms client show ?thesis by (simp add: createAndSignPayment_def)
  next
    case amt: (Inr amt)
    obtain res made where tc: "transferCommands k client r signer amt = (res, made)"
      by (cases "transferCommands k client r signer amt")
    show ?thesis
    proof (cases res)
      case (Inl e)
      with assms client amt tc show ?thesis by (simp add: createAndSignPayment_def)
    next
      case cmds: (Inr cmds)
      let ?tx = "\<lparr> commands = cmds, sender = Some (address signer) \<rparr>"
      show ?thesis
      proof (cases "build k client ?tx")
        case (Inl e)
        with assms client amt tc cmds show ?thesis by (simp add: createAndSignPayment_def)
      next
        case bytes: (Inr txBytes)
        show ?thesis
        proof (cases "signTransaction k (keypair signer) txBytes")
          case (Inl e)
          with assms client amt tc cmds bytes show ?thesis
            by (simp add: createAndSignPayment_def)
        next
          case (Inr sig)
          with assms client amt tc cmds bytes show ?thesis
            by (auto simp add: createAndSignPayment_def)
        qed
      qed
    qed
  qed
qed

text \<open>
  Claim C10. A payload that \<open>createAndSignPayment\<close> returns for a requirement has scheme
  \<open>exact\<close>, the requirement's network, payee and asset, and the requirement's
  \<open>maxAmountRequired\<close> as its amount. Verified against that same requirement, on any
  ledger client, the try block passes the five checks and its result is the result of
  the dry-run step.
\<close>

theorem createAndSignPayment_passes_field_checks:
  assumes "fst (createAndSignPayment k r signer endpoint) = Inr p"
  shows "PaymentPayload.scheme p = ''exact''
       \<and> PaymentPayload.network p = PaymentRequirement.network r
       \<and> PaymentPayload.payTo p = PaymentRequirement.payTo r
       \<and> PaymentPayload.asset p = PaymentRequirement.asset r
       \<and> PaymentPayload.amount p = maxAmountRequired r
       \<and> verifyPayment_try k' p r endpoint' = verifyPayment_dryRun k' p endpoint'"
proof -
  obtain amt txBytes sig where amt: "BigInt (maxAmountRequired r) = Inr amt"
    and p: "p = \<lparr> PaymentPayload.scheme = ''exact'',
                    network = PaymentRequirement.network r,
                    transaction = toB64 k txBytes,
                    signature = toB64 k sig,
                    amount = maxAmountRequired r,
                    payTo = PaymentRequirement.payTo r,
                    asset = PaymentRequirement.asset r \<rparr>"
    using createAndSignPayment_Inr [OF assms] by blast
  have f: "PaymentPayload.scheme p = ''exact''"
    "PaymentPayload.network p = PaymentRequirement.network r"
    "PaymentPayload.payTo p = PaymentRequirement.payTo r"
    "PaymentPayload.asset p = PaymentRequirement.asset r"
    "PaymentPayload.amount p = maxAmountRequired r"
    by (simp_all add: p)
  show ?thesis
    using f by (simp add: verifyPayment_try_def amt)
qed

theorem createAndSignPayment_passes_field_checks_witness:
  "fst (createAndSignPayment (localSdk (\<lambda>c b. Inr ''success'')) weatherRequirement
          clientSigner None) = Inr paidPayload
   \<and> PaymentPayload.amount paidPayload = maxAmountRequired weatherRequirement
   \<and> verifyPayment_try (localSdk (\<lambda>c b. Inr ''failure'')) paidPayload weatherRequirement None
       = verifyPayment_dryRun (localSdk (\<lambda>c b. Inr ''failure'')) paidPayload None"
proof -
  have c: "fst (createAndSignPayment (localSdk (\<lambda>c b. Inr ''success'')) weatherRequirement
                  clientSigner None) = Inr paidPayload"
    by code_simp
  show ?thesis
    using c createAndSignPayment_passes_field_checks [OF c, of "localSdk (\<lambda>c b. Inr ''failure'')" None]
    by simp
qed

section \<open>Properties of the middleware\<close>



lemma middleware_payment_path:
  assumes "routes (path req) = Some routeConfig"
      and "Request.http_method req
             \<in> set (case methods routeConfig of None \<Rightarrow> [''GET''] | Some ms \<Rightarrow> ms)"
      and "getHeader (Request.headers req) ''x-payment'' = Some paymentHeader"
      and "paymentHeader \<noteq> []"
      and "decodePayload cdc paymentHeader = Inr paymentPayload"
  shows "paymentMiddleware k cdc fetch payee routes facilitator paywall x402Config req next =
     (case verifyStep k fetch facilitator (configuredRpcUrl x402Config) paymentPayload
             (expectedRequirement payee routeConfig x402Config req) of
        (Inl e, made) \<Rightarrow>
          \<lparr> delivered = Some invalidFormat, handlerRan = False, calls = made \<rparr>
      | (Inr isValid, made) \<Rightarrow>
          (if \<not> isValid
           then \<lparr> delivered = Some verificationFailed, handlerRan = False, calls = made \<rparr>
           else \<lparr> delivered = handlerResponse (next req (Some paymentPayload)),
                  handlerRan = True,
                  calls = made @ onFinish fetch facilitator paymentPayload
                                   (next req (Some paymentPayload)) \<rparr>))"
  using assms by (simp add: paymentMiddleware_def)

text \<open>
  Once a payment has been verified the response is the handler's own, and the calls that
  follow the verification are those of the \<open>finish\<close> listener: one post to \<open>/settle\<close> when a
  facilitator is configured and the handler answered through \<open>res.send\<close> or \<open>res.json\<close>
  with a status below 400, and none otherwise.
\<close>

lemma calls_after_verified_handler:
  assumes "routes (path req) = Some routeConfig"
      and "Request.http_method req
             \<in> set (case methods routeConfig of None \<Rightarrow> [''GET''] | Some ms \<Rightarrow> ms)"
      and "getHeader (Request.headers req) ''x-payment'' = Some paymentHeader"
      and "paymentHeader \<noteq> []"
      and "decodePayload cdc paymentHeader = Inr paymentPayload"
      and "verifyStep k fetch facilitator (configuredRpcUrl x402Config) paymentPayload
             (expectedRequirement payee routeConfig x402Config req) = (Inr True, made)"
  shows "delivered (paymentMiddleware k cdc fetch payee routes facilitator paywall
                      x402Config req next)
           = handlerResponse (next req (Some paymentPayload))
       \<and> calls (paymentMiddleware k cdc fetch payee routes facilitator paywall
                   x402Config req next)
           = made @
             (case facilitator of
                None \<Rightarrow> []
              | Some f \<Rightarrow>
                  if (\<exists>code text. next req (Some paymentPayload) = Sends code text \<and> code < 400)
                  then [Fetch \<lparr> url = FacilitatorConfig.url f @ ''/settle'',
                                body = SettleBody paymentPayload,
                                timeout = facilitatorTimeout f \<rparr>]
                  else [])"
proof -
  have fin: "onFinish fetch facilitator paymentPayload (next req (Some paymentPayload)) =
             (case facilitator of
                None \<Rightarrow> []
              | Some f \<Rightarrow>
                  if (\<exists>code text. next req (Some paymentPayload) = Sends code text \<and> code < 400)
                  then [Fetch \<lparr> url = FacilitatorConfig.url f @ ''/settle'',
                                body = SettleBody paymentPayload,
                                timeout = facilitatorTimeout f \<rparr>]
                  else [])"
    unfolding onFinish_def Let_def
    by (cases "next req (Some paymentPayload)"; cases facilitator)
       (auto split: sum.splits)
  have path: "paymentMiddleware k cdc fetch payee routes facilitator paywall x402Config req next =
     (case verifyStep k fetch facilitator (configuredRpcUrl x402Config) paymentPayload
             (expectedRequirement payee routeConfig x402Config req) of
        (Inl e, made) \<Rightarrow>
          \<lparr> delivered = Some invalidFormat, handlerRan = False, calls = made \<rparr>
      | (Inr isValid, made) \<Rightarrow>
          (if \<not> isValid
           then \<lparr> delivered = Some verificationFailed, handlerRan = False, calls = made \<rparr>
           else \<lparr> delivered = handlerResponse (next req (Some paymentPayload)),
                  handlerRan = True,
                  calls = made @ onFinish fetch facilitator paymentPayload
                                   (next req (Some paymentPayload)) \<rparr>))"
    using assms(1-5) by (rule middleware_payment_path)
  show ?thesis
    using assms(6) fin by (simp add: path)
qed

text \<open>
  Claim C5 at concrete requests. The payload pays the full price of \<open>/weather\<close> and the
  handler answers 200. With no facilitator configured the payment is verified locally,
  by one dry run, the response is delivered, and nothing is settled: the ledger is never
  asked to execute the transaction. With the facilitator of the example the same request
  is followed by a post to \<open>/settle\<close>. With that facilitator and a handler that answers 200
  through \<open>res.end\<close>, nothing is settled either.
\<close>

theorem settlement_missing_without_facilitator:
  "paymentMiddleware (localSdk (\<lambda>c b. Inr ''success'')) nodeCodec (\<lambda>c. Inr True)
     ''0xa11ce'' weatherRoutes None None None paidRequest weatherHandler
   = \<lparr> delivered = Some \<lparr> status = 200, headers = [], body = TextBody ''sunny'' \<rparr>,
       handlerRan = True,
       calls = [Rpc (DryRunTransactionBlock ''http://127.0.0.1:9000'' [1, 2, 3])] \<rparr>
   \<and> paymentMiddleware (localSdk (\<lambda>c b. Inr ''success'')) nodeCodec (\<lambda>c. Inr True)
       ''0xa11ce'' weatherRoutes (Some localFacilitator) None None paidRequest weatherHandler
     = \<lparr> delivered = Some \<lparr> status = 200, headers = [], body = TextBody ''sunny'' \<rparr>,
         handlerRan = True,
         calls = [Fetch \<lparr> url = ''http://localhost:3002/verify'',
                          body = VerifyBody paidPayload weatherRequirement, timeout = 30000 \<rparr>,
                  Fetch \<lparr> url = ''http://localhost:3002/settle'',
                          body = SettleBody paidPayload, timeout = 30000 \<rparr>] \<rparr>
   \<and> paymentMiddleware (localSdk (\<lambda>c b. Inr ''success'')) nodeCodec (\<lambda>c. Inr True)
       ''0xa11ce'' weatherRoutes (Some localFacilitator) None None paidRequest
       (\<lambda>req payment. Ends 200 ''sunny'')
     = \<lparr> delivered = Some \<lparr> status = 200, headers = [], body = TextBody ''sunny'' \<rparr>,
         handlerRan = True,
         calls = [Fetch \<lparr> url = ''http://localhost:3002/verify'',
                          body = VerifyBody paidPayload weatherRequirement,
                          timeout = 30000 \<rparr>] \<rparr>"
  by code_simp

text \<open>
  When \<open>fetch\<close> throws on the facilitator's \<open>/verify\<close>, the enclosing \<open>catch\<close> answers 402
  with the message of the format error.
\<close>

lemma facilitator_unreachable_invalid_format:
  assumes "routes (path req) = Some routeConfig"
      and "Request.http_method req
             \<in> set (case methods routeConfig of None \<Rightarrow> [''GET''] | Some ms \<Rightarrow> ms)"
      and "getHeader (Request.headers req) ''x-payment'' = Some paymentHeader"
      and "paymentHeader \<noteq> []"
      and "decodePayload cdc paymentHeader = Inr paymentPayload"
      and "fetch \<lparr> url = FacilitatorConfig.url f @ ''/verify'',
                   body = VerifyBody paymentPayload
                            (expectedRequirement payee routeConfig x402Config req),
                   timeout = facilitatorTimeout f \<rparr> = Inl e"
  shows "delivered (paymentMiddleware k cdc fetch payee routes (Some f) paywall
                      x402Config req next) = Some invalidFormat"
proof -
  have path: "paymentMiddleware k cdc fetch payee routes (Some f) paywall x402Config req next =
     (case verifyStep k fetch (Some f) (configuredRpcUrl x402Config) paymentPayload
             (expectedRequirement payee routeConfig x402Config req) of
        (Inl e, made) \<Rightarrow>
          \<lparr> delivered = Some invalidFormat, handlerRan = False, calls = made \<rparr>
      | (Inr isValid, made) \<Rightarrow>
          (if \<not> isValid
           then \<lparr> delivered = Some verificationFailed, handlerRan = False, calls = made \<rparr>
           else \<lparr> delivered = handlerResponse (next req (Some paymentPayload)),
                  handlerRan = True,
                  calls = made @ onFinish fetch (Some f) paymentPayload
                                   (next req (Some paymentPayload)) \<rparr>))"
    using assms(1-5) by (rule middleware_payment_path)
  show ?thesis
    using assms(6) by (simp add: path verifyStep_def)
qed

text \<open>
  Claim C6 at a concrete request. The facilitator is unreachable and the payload is the
  fully paid one. The request is answered, with status 402, but the message is
  \<open>Invalid payment format\<close> and not \<open>Payment verification failed\<close>.
\<close>

theorem facilitator_unreachable_at_weather:
  "delivered (paymentMiddleware (localSdk (\<lambda>c b. Inr ''success'')) nodeCodec
                (\<lambda>c. Inl (TypeError ''fetch failed'')) ''0xa11ce'' weatherRoutes
                (Some localFacilitator) None None paidRequest weatherHandler)
     = Some \<lparr> status = 402,
              headers = [(''content-type'', ''application/json; charset=utf-8'')],
              body = JsonBody \<lparr> x402Version = 1, error = Some ''Invalid payment format'',
                                accepts = None \<rparr> \<rparr>"
  by code_simp

section \<open>Properties of the transport\<close>

lemma requests_simps [simp]:
  "requests [] = []"
  "requests (Fetched t i # rest) = (t, i) # requests rest"
  "requests (Called c # rest) = requests rest"
  "requests (xs @ ys) = requests xs @ requests ys"
  by (simp_all add: requests_def)

lemma requests_Called [simp]: "requests (map Called made) = []"
  by (induction made) simp_all




text \<open>
  Claim C8. Let the first response be a 402 whose challenge decodes to a list from which
  a requirement is selected, and let \<open>maxValue\<close> be set. If the requirement's amount
  exceeds \<open>maxValue\<close>, the transport throws the over-budget error after the first request
  alone: no RPC is made and nothing is sent. If the amount is at most \<open>maxValue\<close>, and so
  when it equals it, the transport goes on to build the payment for that requirement:
  when the construction throws, the transport throws that exception after the RPCs of
  the construction; when it yields a header, the transport sends the request again with
  that header and returns the answer to it.
\<close>

theorem over_budget_aborts_before_payment:
  assumes "fetchFn target init w = (Inr response, w1)"
      and "status response = 402"
      and "getHeader (Response.headers response) ''x-payment-required'' = Some h"
      and "h \<noteq> []"
      and "decodeXPaymentRequired cdc h = Inr (firstRequirement # others)"
      and "(case selector of
              None \<Rightarrow> Inr (Some firstRequirement)
            | Some sel \<Rightarrow> sel (firstRequirement # others)) = Inr (Some selected)"
      and "BigInt (maxAmountRequired selected) = Inr requiredAmount"
  shows "(requiredAmount > limit \<longrightarrow>
            wrapFetchWithPayment k cdc fetchFn signer (Some limit) selector config target init w
              = (Inl (Error (''Payment amount ('' @ showInt requiredAmount
                              @ '') exceeds maximum allowed value ('' @ showInt limit @ '')'')),
                 [Fetched target init], w1))
       \<and> (requiredAmount \<le> limit \<longrightarrow>
            wrapFetchWithPayment k cdc fetchFn signer (Some limit) selector config target init w
              = (case createPaymentHeader k cdc selected signer (configuredRpcUrl config) of
                   (Inl e, made) \<Rightarrow> (Inl e, Fetched target init # map Called made, w1)
                 | (Inr paymentHeader, made) \<Rightarrow>
                     (fst (fetchFn target (Some (withPayment init paymentHeader)) w1),
                      Fetched target init # map Called made
                        @ [Fetched target (Some (withPayment init paymentHeader))],
                      snd (fetchFn target (Some (withPayment init paymentHeader)) w1))))"
proof (intro conjI impI)
  assume over: "requiredAmount > limit"
  have "preparePayment k cdc signer (Some limit) selector config response
          = (Inl (Error (''Payment amount ('' @ showInt requiredAmount
                              @ '') exceeds maximum allowed value ('' @ showInt limit @ '')'')), [])"
    using assms(3-7) over by (simp add: preparePayment_def)
  then show "wrapFetchWithPayment k cdc fetchFn signer (Some limit) selector config target init w
              = (Inl (Error (''Payment amount ('' @ showInt requiredAmount
                              @ '') exceeds maximum allowed value ('' @ showInt limit @ '')'')),
                 [Fetched target init], w1)"
    using assms(1,2) by (simp add: wrapFetchWithPayment_def)
next
  assume within: "requiredAmount \<le> limit"
  have prep: "preparePayment k cdc signer (Some limit) selector config response
              = createPaymentHeader k cdc selected signer (configuredRpcUrl config)"
    using assms(3-7) within by (simp add: preparePayment_def)
  obtain built made where b: "createPaymentHeader k cdc selected signer (configuredRpcUrl config)
                                = (built, made)"
    by (cases "createPaymentHeader k cdc selected signer (configuredRpcUrl config)")
  show "wrapFetchWithPayment k cdc fetchFn signer (Some limit) selector config target init w
              = (case createPaymentHeader k cdc selected signer (configuredRpcUrl config) of
                   (Inl e, made) \<Rightarrow> (Inl e, Fetched target init # map Called made, w1)
                 | (Inr paymentHeader, made) \<Rightarrow>
                     (fst (fetchFn target (Some (withPayment init paymentHeader)) w1),
                      Fetched target init # map Called made
                        @ [Fetched target (Some (withPayment init paymentHeader))],
                      snd (fetchFn target (Some (withPayment init paymentHeader)) w1)))"
  proof (cases built)
    case (Inl e)
    then show ?thesis
      using assms(1,2) prep b by (simp add: wrapFetchWithPayment_def)
  next
    case (Inr paymentHeader)
    then show ?thesis
      using assms(1,2) prep b
      by (cases "fetchFn target (Some (withPayment init paymentHeader)) w1")
         (simp add: wrapFetchWithPayment_def)
  qed
qed

text \<open>
  At the route of the example: with 100 units allowed the call throws after its first
  request; with exactly the price allowed the payment is built by one RPC, the request
  is sent again with the payment header, and the answer to it is returned.
\<close>

theorem over_budget_aborts_before_payment_witness:
  "BigInt (maxAmountRequired weatherRequirement) = Inr 1000000000
   \<and> wrapFetchWithPayment (localSdk (\<lambda>c b. Inr ''success'')) nodeCodec paywalledFetch
        clientSigner (Some 100) None None weatherUrl None 0
       = (Inl (Error ''Payment amount (1000000000) exceeds maximum allowed value (100)''),
          [Fetched weatherUrl None], 1)
   \<and> wrapFetchWithPayment (localSdk (\<lambda>c b. Inr ''success'')) nodeCodec paywalledFetch
        clientSigner (Some 1000000000) None None weatherUrl None 0
       = (Inr \<lparr> status = 200, headers = [], body = TextBody ''sunny'' \<rparr>,
          [Fetched weatherUrl None,
           Called (Build ''http://127.0.0.1:9000''
                     \<lparr> commands = [SplitCoins GasCoin [1000000000],
                                   TransferObjects [Result 0] ''0xa11ce''],
                       sender = Some ''0xb0b'' \<rparr>),
           Fetched weatherUrl (Some (withPayment None (encodePaymentHeader paidPayload)))],
          2)"
proof -
  let ?k = "localSdk (\<lambda>c b. Inr ''success'')"
  let ?made = "[Build ''http://127.0.0.1:9000''
                  \<lparr> commands = [SplitCoins GasCoin [1000000000],
                                TransferObjects [Result 0] ''0xa11ce''],
                    sender = Some ''0xb0b'' \<rparr>]"
  have f: "paywalledFetch weatherUrl None 0 = (Inr challengeResponse, 1)"
    by (simp add: paywalledFetch_def)
  have s: "status challengeResponse = 402"
    by (simp add: challengeResponse_def)
  have h: "getHeader (Response.headers challengeResponse) ''x-payment-required''
             = Some ''weather''"
    by (simp add: challengeResponse_def getHeader_def)
  have n: "''weather'' \<noteq> []"
    by simp
  have d: "decodeXPaymentRequired nodeCodec ''weather'' = Inr (weatherRequirement # [])"
    by (simp add: decodeXPaymentRequired_def nodeCodec_def)
  have c: "(case None of
              None \<Rightarrow> Inr (Some weatherRequirement)
            | Some sel \<Rightarrow> sel (weatherRequirement # [])) = Inr (Some weatherRequirement)"
    by simp
  have b: "BigInt (maxAmountRequired weatherRequirement) = Inr 1000000000"
    by code_simp
  have m: "showInt 1000000000 = ''1000000000''" "showInt 100 = ''100''"
    by code_simp+
  have r: "configuredRpcUrl None = None"
    by (simp add: configuredRpcUrl_def)
  have p: "createPaymentHeader ?k nodeCodec weatherRequirement clientSigner None
             = (Inr (encodePaymentHeader paidPayload), ?made)"
    by code_simp
  have g: "paywalledFetch weatherUrl
             (Some (withPayment None (encodePaymentHeader paidPayload))) 1
             = (Inr \<lparr> status = 200, headers = [], body = TextBody ''sunny'' \<rparr>, 2)"
    by (simp add: paywalledFetch_def)
  have over: "wrapFetchWithPayment ?k nodeCodec paywalledFetch clientSigner (Some 100) None None
                weatherUrl None 0
       = (Inl (Error ''Payment amount (1000000000) exceeds maximum allowed value (100)''),
          [Fetched weatherUrl None], 1)"
    using f s h n d c b over_budget_aborts_before_payment
        [where fetchFn = paywalledFetch and target = weatherUrl and init = None and w = 0
           and response = challengeResponse and ?w1.0 = 1 and h = "''weather''"
           and cdc = nodeCodec and firstRequirement = weatherRequirement and others = "[]"
           and selector = None and selected = weatherRequirement
           and requiredAmount = 1000000000 and limit = 100 and k = ?k
           and signer = clientSigner and config = None]
    unfolding m by simp
  have within: "wrapFetchWithPayment ?k nodeCodec paywalledFetch clientSigner
                  (Some 1000000000) None None weatherUrl None 0
       = (Inr \<lparr> status = 200, headers = [], body = TextBody ''sunny'' \<rparr>,
          Fetched weatherUrl None # map Called ?made
            @ [Fetched weatherUrl (Some (withPayment None (encodePaymentHeader paidPayload)))],
          2)"
    using f s h n d c b over_budget_aborts_before_payment
        [where fetchFn = paywalledFetch and target = weatherUrl and init = None and w = 0
           and response = challengeResponse and ?w1.0 = 1 and h = "''weather''"
           and cdc = nodeCodec and firstRequirement = weatherRequirement and others = "[]"
           and selector = None and selected = weatherRequirement
           and requiredAmount = 1000000000 and limit = 1000000000 and k = ?k
           and signer = clientSigner and config = None]
    unfolding r p by (simp add: g)
  show ?thesis
    using b over within by simp
qed

section \<open>The transport against the middleware: end to end\<close>

text \<open>No response of the middleware carries an \<open>x-payment-required\<close> header.\<close>

lemma jsonResponse_no_required_header:
  "getHeader (Response.headers (jsonResponse code envelope)) ''x-payment-required'' = None"
  by (simp add: jsonResponse_def getHeader_def)

text \<open>
  Claim C1 at the route of the example: \<open>/weather\<close> priced at \<open>1000000000\<close> of the native
  asset, a facilitator that accepts everything, a client that can pay and sends no
  payment header. The first response is the 402 challenge, whose requirements are in
  the body; the transport looks for them in a header, throws, and never retries.
\<close>

theorem end_to_end_at_weather:
  "fst (serve (paymentMiddleware (localSdk (\<lambda>c b. Inr ''success'')) nodeCodec (\<lambda>c. Inr True)
                 ''0xa11ce'' weatherRoutes (Some localFacilitator) None None)
          weatherHandler weatherUrl None [])
     = Inr (challenge (challengeRequirement ''0xa11ce'' weatherRoute (Some localFacilitator)
                         None (toRequest weatherUrl None)))
   \<and> wrapFetchWithPayment (localSdk (\<lambda>c b. Inr ''success'')) nodeCodec
        (serve (paymentMiddleware (localSdk (\<lambda>c b. Inr ''success'')) nodeCodec (\<lambda>c. Inr True)
                  ''0xa11ce'' weatherRoutes (Some localFacilitator) None None)
           weatherHandler)
        clientSigner None None None weatherUrl None []
       = (Inl (Error ''402 status but no x-payment-required header found''),
          [Fetched weatherUrl None], [])"
  by code_simp

section \<open>Properties of the codec\<close>

subsection \<open>Base64 and UTF-8\<close>





















subsection \<open>Strings\<close>










subsection \<open>Numbers\<close>

















subsection \<open>Values\<close>

































end
